theory Spec2Isabelle
  imports Complex_Main
begin

section \<open>Python strings\<close>

text \<open>
  A Python \<open>str\<close> is a sequence of Unicode code points. The model represents a
  string that the program receives as a \<^typ>\<open>string\<close> and reads each \<^typ>\<open>char\<close>
  as the code point of the same number, so it covers text over U+0000 .. U+00FF. The
  character tables below are the ones of CPython 3 on that range. Title-casing leads out
  of the range, so a string that the program builds with it is a list of code points.
\<close>

type_synonym ustring = "nat list"

definition code :: "char \<Rightarrow> nat" where
  "code c = of_char c"

text \<open>The code points of a string of the range.\<close>

definition codepoints :: "string \<Rightarrow> ustring" where
  "codepoints s = map code s"

text \<open>\<open>str.isspace\<close>, the characters that \<open>str.strip()\<close> removes.\<close>

definition py_isspace :: "char \<Rightarrow> bool" where
  "py_isspace c =
     (let n = code c in (9 \<le> n \<and> n \<le> 13) \<or> (28 \<le> n \<and> n \<le> 32) \<or> n = 133 \<or> n = 160)"

definition py_strip :: "string \<Rightarrow> string" where
  "py_strip s = rev (dropWhile py_isspace (rev (dropWhile py_isspace s)))"

text \<open>The characters with a lower-case mapping different from themselves.\<close>

definition has_lower :: "char \<Rightarrow> bool" where
  "has_lower c =
     (let n = code c in (65 \<le> n \<and> n \<le> 90) \<or> (192 \<le> n \<and> n \<le> 214) \<or> (216 \<le> n \<and> n \<le> 222))"

definition lower_char :: "char \<Rightarrow> char" where
  "lower_char c = (if has_lower c then char_of (code c + 32) else c)"

definition py_lower :: "string \<Rightarrow> string" where
  "py_lower s = map lower_char s"

text \<open>
  The cased characters (upper case, lower case, or with the property Other_Lowercase,
  which U+00AA and U+00BA have).
\<close>

definition is_cased :: "char \<Rightarrow> bool" where
  "is_cased c =
     (let n = code c in
        (65 \<le> n \<and> n \<le> 90) \<or> (97 \<le> n \<and> n \<le> 122) \<or> n = 170 \<or> n = 181 \<or> n = 186 \<or>
        (192 \<le> n \<and> n \<le> 214) \<or> (216 \<le> n \<and> n \<le> 246) \<or> (248 \<le> n \<and> n \<le> 255))"

text \<open>
  The title-case mapping of one character, as code points. U+00DF maps to the two
  characters \<open>Ss\<close>, U+00B5 to U+039C (924) and U+00FF to U+0178 (376).
\<close>

definition title_char :: "char \<Rightarrow> ustring" where
  "title_char c =
     (let n = code c in
        if (97 \<le> n \<and> n \<le> 122) \<or> (224 \<le> n \<and> n \<le> 246) \<or> (248 \<le> n \<and> n \<le> 254)
        then [n - 32]
        else if n = 223 then [83, 115]
        else if n = 181 then [924]
        else if n = 255 then [376]
        else [n])"

text \<open>
  \<open>str.title()\<close>: a cased character that follows a cased character is lower-cased,
  every other character is title-cased.
\<close>

fun title_from :: "bool \<Rightarrow> string \<Rightarrow> ustring" where
  "title_from previous_is_cased [] = []"
| "title_from previous_is_cased (c # cs) =
     (if previous_is_cased then [code (lower_char c)] else title_char c) @
     title_from (is_cased c) cs"

definition py_title :: "string \<Rightarrow> ustring" where
  "py_title s = title_from False s"

text \<open>\<open>s.replace(old, new)\<close> for one-character \<open>old\<close> and \<open>new\<close>.\<close>

definition py_replace :: "char \<Rightarrow> char \<Rightarrow> string \<Rightarrow> string" where
  "py_replace old new s = map (\<lambda>c. if c = old then new else c) s"

section \<open>Regular expressions\<close>

text \<open>
  The fragment of the \<open>re\<close> syntax that the pattern table uses: literals, the word
  boundary \<open>\b\<close>, concatenation, alternation and groups.
\<close>

datatype regex =
    Eps
  | Literal char
  | WordBoundary
  | Seq regex regex
  | Alt regex regex
  | Group regex

text \<open>\<open>\w\<close> for a \<open>str\<close> pattern: alphanumeric, or the underscore.\<close>

definition is_word_char :: "char \<Rightarrow> bool" where
  "is_word_char c =
     (let n = code c in
        (48 \<le> n \<and> n \<le> 57) \<or> (65 \<le> n \<and> n \<le> 90) \<or> n = 95 \<or> (97 \<le> n \<and> n \<le> 122) \<or>
        n = 170 \<or> n = 178 \<or> n = 179 \<or> n = 181 \<or> n = 185 \<or> n = 186 \<or>
        (188 \<le> n \<and> n \<le> 190) \<or> (192 \<le> n \<and> n \<le> 214) \<or> (216 \<le> n \<and> n \<le> 246) \<or>
        (248 \<le> n \<and> n \<le> 255))"

definition is_word_at :: "string \<Rightarrow> nat \<Rightarrow> bool" where
  "is_word_at s i = (i < length s \<and> is_word_char (s ! i))"

text \<open>
  \<open>\b\<close> at position \<open>i\<close>: exactly one of the characters before and at \<open>i\<close> is a
  word character, where the positions outside the string count as non-word.
\<close>

definition at_boundary :: "string \<Rightarrow> nat \<Rightarrow> bool" where
  "at_boundary s i = ((0 < i \<and> is_word_at s (i - 1)) \<noteq> is_word_at s i)"

text \<open>
  With \<open>re.IGNORECASE\<close> a literal matches a character with the same lower-case form.
\<close>

definition literal_matches :: "char \<Rightarrow> char \<Rightarrow> bool" where
  "literal_matches p c = (lower_char c = lower_char p)"

text \<open>
  The positions at which a match of \<open>r\<close> that starts at position \<open>i\<close> of \<open>s\<close> can
  end, in the order in which a backtracking matcher tries them.
\<close>

fun match_at :: "regex \<Rightarrow> string \<Rightarrow> nat \<Rightarrow> nat list" where
  "match_at Eps s i = [i]"
| "match_at (Literal p) s i =
     (if i < length s \<and> literal_matches p (s ! i) then [Suc i] else [])"
| "match_at WordBoundary s i = (if at_boundary s i then [i] else [])"
| "match_at (Seq a b) s i = concat (map (match_at b s) (match_at a s i))"
| "match_at (Alt a b) s i = match_at a s i @ match_at b s i"
| "match_at (Group a) s i = match_at a s i"

text \<open>
  \<open>re.search(pattern, s, re.IGNORECASE)\<close> as a truth value: there is a match that
  starts at some position of \<open>s\<close>.
\<close>

definition re_search :: "regex \<Rightarrow> string \<Rightarrow> bool" where
  "re_search r s = list_ex (\<lambda>i. match_at r s i \<noteq> []) [0..<Suc (length s)]"

text \<open>The pattern syntax \<open>w\<close>, \<open>w1|...|wn\<close> and \<open>\b(w1|...|wn)\b\<close>.\<close>

fun literal :: "string \<Rightarrow> regex" where
  "literal [] = Eps"
| "literal (c # cs) = Seq (Literal c) (literal cs)"

fun alternatives :: "string list \<Rightarrow> regex" where
  "alternatives [] = Eps"
| "alternatives [w] = literal w"
| "alternatives (w # ws) = Alt (literal w) (alternatives ws)"

definition words :: "string list \<Rightarrow> regex" where
  "words ws = Seq WordBoundary (Seq (Group (alternatives ws)) WordBoundary)"

section \<open>The heuristic classifier\<close>

record check_response =
  safe :: bool
  reasons :: "ustring list"
  mode :: string

definition HEURISTIC_PATTERNS :: "(string \<times> regex list) list" where
  "HEURISTIC_PATTERNS =
    [(''violence'',
        [words [''kill'', ''murder'', ''assault'', ''attack'', ''fight'', ''violence'', ''harm'', ''hurt''],
         words [''weapon'', ''gun'', ''knife'', ''bomb'', ''explosive''],
         words [''threat'', ''threaten'', ''intimidate'']]),
     (''harassment'',
        [words [''stupid'', ''idiot'', ''moron'', ''dumb'', ''ugly'', ''fat'', ''gross''],
         words [''hate'', ''despise'', ''loathe''],
         words [''harass'', ''bully'', ''intimidate'']]),
     (''inappropriate'',
        [words [''sex'', ''sexual'', ''nude'', ''naked'', ''porn'', ''adult''],
         words [''drug'', ''alcohol'', ''drunk'', ''high'', ''stoned''],
         words [''scam'', ''fraud'', ''cheat'', ''steal'', ''rob'']]),
     (''spam'',
        [words [''buy'', ''sell'', ''promo'', ''discount'', ''offer'', ''deal''],
         words [''click'', ''link'', ''website'', ''url''],
         words [''follow'', ''subscribe'', ''like'', ''share'']])]"

text \<open>The reason string \<open>f"Detected: {category.replace('_', ' ').title()}"\<close>.\<close>

definition format_reason :: "string \<Rightarrow> ustring" where
  "format_reason category =
     codepoints ''Detected: '' @ py_title (py_replace CHR ''_'' CHR '' '' category)"

text \<open>
  The inner loop: the patterns of one category in order; the result says whether the
  loop reached its \<open>break\<close>.
\<close>

fun scan_patterns :: "regex list \<Rightarrow> string \<Rightarrow> bool" where
  "scan_patterns [] text_lower = False"
| "scan_patterns (pattern # patterns) text_lower =
     (if re_search pattern text_lower then True else scan_patterns patterns text_lower)"

text \<open>
  The outer loop over the items of the table; \<open>acc\<close> is the list \<open>reasons\<close> that the
  loop appends to.
\<close>

fun scan_categories ::
  "(string \<times> regex list) list \<Rightarrow> string \<Rightarrow> ustring list \<Rightarrow> ustring list" where
  "scan_categories [] text_lower acc = acc"
| "scan_categories ((category, patterns) # items) text_lower acc =
     scan_categories items text_lower
       (if scan_patterns patterns text_lower then acc @ [format_reason category] else acc)"

definition check_with_heuristic :: "string \<Rightarrow> check_response" where
  "check_with_heuristic text =
     (let text_lower = py_lower text;
          found = scan_categories HEURISTIC_PATTERNS text_lower []
      in \<lparr>safe = (length found = 0), reasons = found, mode = ''heuristic''\<rparr>)"

section \<open>The moderation client\<close>

text \<open>
  The value that \<open>response.json()\<close> returns. An object is the list of its items in
  insertion order, as a Python \<open>dict\<close> keeps them; its keys are distinct. A float is
  read as the real number it denotes (only its truth value is used).
\<close>

datatype json =
    JNull
  | JBool bool
  | JInt int
  | JFloat real
  | JStr string
  | JArr "json list"
  | JObj "(string \<times> json) list"

text \<open>
  The exceptions of the two functions. The first four are raised by the subscripts and
  the attribute access of the client, the next four by the HTTP library (a transport
  error, a timeout, \<open>raise_for_status()\<close> and \<open>response.json()\<close>); all of them are
  subclasses of \<open>Exception\<close>. \<open>HTTPException\<close> carries its status code and detail.
\<close>

datatype py_exception =
    KeyError
  | IndexError
  | TypeError
  | AttributeError
  | TransportError
  | TimeoutException
  | HTTPStatusError nat
  | JSONDecodeError
  | HTTPException nat string

text \<open>The arguments of \<open>client.post\<close>; the timeout is in seconds.\<close>

record request =
  url :: string
  authorization :: string
  content_type :: string
  json_input :: string
  timeout :: nat

text \<open>
  The external service, seen from the client: what the three calls \<open>client.post\<close>,
  \<open>response.raise_for_status()\<close> and \<open>response.json()\<close> give for a request, either
  the exception that one of them raises or the decoded payload.
\<close>

type_synonym service = "request \<Rightarrow> py_exception + json"

text \<open>
  The environment is the value of the variable \<open>OPENAI_API_KEY\<close>, \<open>None\<close> when it is
  not set. \<open>has_api_key\<close> is the truth value of \<open>os.getenv("OPENAI_API_KEY")\<close>.
\<close>

definition has_api_key :: "string option \<Rightarrow> bool" where
  "has_api_key env = (case env of None \<Rightarrow> False | Some k \<Rightarrow> k \<noteq> [])"

definition make_request :: "string option \<Rightarrow> string \<Rightarrow> request" where
  "make_request env text =
     \<lparr>url = ''https://api.openai.com/v1/moderations'',
      authorization = ''Bearer '' @ (case env of None \<Rightarrow> ''None'' | Some k \<Rightarrow> k),
      content_type = ''application/json'',
      json_input = text,
      timeout = 10\<rparr>"

text \<open>\<open>v[key]\<close> for a string \<open>key\<close>.\<close>

definition getitem_str :: "json \<Rightarrow> string \<Rightarrow> py_exception + json" where
  "getitem_str v key =
     (case v of
        JObj kvs \<Rightarrow> (case map_of kvs key of Some x \<Rightarrow> Inr x | None \<Rightarrow> Inl KeyError)
      | _ \<Rightarrow> Inl TypeError)"

text \<open>
  \<open>v[0]\<close>: the first element of a list, the first character of a string; the keys of a
  decoded object are strings, so none of them equals \<open>0\<close>.
\<close>

definition getitem_0 :: "json \<Rightarrow> py_exception + json" where
  "getitem_0 v =
     (case v of
        JArr xs \<Rightarrow> (case xs of [] \<Rightarrow> Inl IndexError | x # _ \<Rightarrow> Inr x)
      | JStr cs \<Rightarrow> (case cs of [] \<Rightarrow> Inl IndexError | c # _ \<Rightarrow> Inr (JStr [c]))
      | JObj kvs \<Rightarrow> Inl KeyError
      | _ \<Rightarrow> Inl TypeError)"

text \<open>The truth value of a decoded value, as \<open>if v:\<close> and \<open>not v\<close> take it.\<close>

definition truthy :: "json \<Rightarrow> bool" where
  "truthy v =
     (case v of
        JNull \<Rightarrow> False
      | JBool b \<Rightarrow> b
      | JInt n \<Rightarrow> n \<noteq> 0
      | JFloat x \<Rightarrow> x \<noteq> 0
      | JStr cs \<Rightarrow> cs \<noteq> []
      | JArr xs \<Rightarrow> xs \<noteq> []
      | JObj kvs \<Rightarrow> kvs \<noteq> [])"

text \<open>\<open>v.items()\<close>: only an object has the attribute.\<close>

definition py_items :: "json \<Rightarrow> py_exception + (string \<times> json) list" where
  "py_items v = (case v of JObj kvs \<Rightarrow> Inr kvs | _ \<Rightarrow> Inl AttributeError)"

text \<open>The loop over \<open>categories.items()\<close>; \<open>acc\<close> is the list \<open>reasons\<close>.\<close>

fun collect_reasons :: "(string \<times> json) list \<Rightarrow> ustring list \<Rightarrow> ustring list" where
  "collect_reasons [] acc = acc"
| "collect_reasons ((category, is_flagged) # items) acc =
     collect_reasons items (if truthy is_flagged then acc @ [format_reason category] else acc)"

text \<open>The statements of the \<open>try\<close> block after \<open>data = response.json()\<close>.\<close>

definition read_moderation :: "json \<Rightarrow> py_exception + check_response" where
  "read_moderation data =
     (case getitem_str data ''results'' of Inl e \<Rightarrow> Inl e | Inr results \<Rightarrow>
      case getitem_0 results of Inl e \<Rightarrow> Inl e | Inr result \<Rightarrow>
      case getitem_str result ''flagged'' of Inl e \<Rightarrow> Inl e | Inr flagged \<Rightarrow>
      case getitem_str result ''categories'' of Inl e \<Rightarrow> Inl e | Inr categories \<Rightarrow>
      if truthy flagged
      then (case py_items categories of Inl e \<Rightarrow> Inl e | Inr kvs \<Rightarrow>
              Inr \<lparr>safe = \<not> truthy flagged, reasons = collect_reasons kvs [], mode = ''openai''\<rparr>)
      else Inr \<lparr>safe = \<not> truthy flagged, reasons = [], mode = ''openai''\<rparr>)"

text \<open>The whole \<open>try\<close> block.\<close>

definition try_moderation :: "service \<Rightarrow> string option \<Rightarrow> string \<Rightarrow> py_exception + check_response" where
  "try_moderation svc env text =
     (case svc (make_request env text) of Inl e \<Rightarrow> Inl e | Inr data \<Rightarrow> read_moderation data)"

text \<open>
  \<open>check_with_openai\<close>: every exception of the \<open>try\<close> block is caught and replaced by
  the \<open>HTTPException\<close>. The second component is the list of the requests made. (The
  \<open>print\<close> of the handler is not modelled.)
\<close>

definition check_with_openai ::
  "service \<Rightarrow> string option \<Rightarrow> string \<Rightarrow> (py_exception + check_response) \<times> request list" where
  "check_with_openai svc env text =
     (case try_moderation svc env text of
        Inl e \<Rightarrow> Inl (HTTPException 500 ''OpenAI moderation service unavailable'')
      | Inr r \<Rightarrow> Inr r,
      [make_request env text])"

section \<open>The request handlers\<close>

text \<open>
  \<open>check_text\<close>: the result is the response or the exception that leaves the handler,
  with the list of the requests made to the external service. \<open>except HTTPException\<close>
  catches that exception only.
\<close>

definition check_text ::
  "service \<Rightarrow> string option \<Rightarrow> string \<Rightarrow> (py_exception + check_response) \<times> request list" where
  "check_text svc env text =
     (if py_strip text = [] then (Inr \<lparr>safe = True, reasons = [], mode = ''none''\<rparr>, [])
      else if has_api_key env then
        (case check_with_openai svc env text of
           (Inr r, sent) \<Rightarrow> (Inr r, sent)
         | (Inl e, sent) \<Rightarrow>
             (case e of
                HTTPException status_code detail \<Rightarrow> (Inr (check_with_heuristic text), sent)
              | _ \<Rightarrow> (Inl e, sent)))
      else (Inr (check_with_heuristic text), []))"

record health_response =
  status :: string
  openai_available :: bool
  heuristic_available :: bool

definition health_check :: "string option \<Rightarrow> health_response" where
  "health_check env =
     \<lparr>status = ''healthy'', openai_available = has_api_key env, heuristic_available = True\<rparr>"

section \<open>Whole-word occurrence\<close>

text \<open>
  What the patterns of the table look for, said without regular expressions: the word
  \<open>w\<close> occurs in \<open>s\<close> at position \<open>i\<close> up to case, with a word boundary on each
  side.
\<close>

definition occurs_at :: "string \<Rightarrow> string \<Rightarrow> nat \<Rightarrow> bool" where
  "occurs_at w s i = (py_lower (take (length w) (drop i s)) = py_lower w)"

definition whole_word_at :: "string \<Rightarrow> string \<Rightarrow> nat \<Rightarrow> bool" where
  "whole_word_at w s i = (at_boundary s i \<and> occurs_at w s i \<and> at_boundary s (i + length w))"

definition contains_word :: "string list \<Rightarrow> string \<Rightarrow> bool" where
  "contains_word ws s = list_ex (\<lambda>w. list_ex (whole_word_at w s) [0..<Suc (length s)]) ws"

section \<open>Sample services and payloads\<close>

text \<open>A service that answers every request with the same payload, or never answers.\<close>

definition reply :: "json \<Rightarrow> service" where
  "reply data req = Inr data"

definition timing_out :: service where
  "timing_out req = Inl TimeoutException"

definition moderation_payload :: "bool \<Rightarrow> (string \<times> bool) list \<Rightarrow> json" where
  "moderation_payload flagged cats =
     JObj [(''id'', JStr ''modr-1''),
           (''results'',
              JArr [JObj [(''flagged'', JBool flagged),
                          (''categories'', JObj (map (\<lambda>kv. (fst kv, JBool (snd kv))) cats))]])]"

section \<open>Strings and patterns\<close>

lemma py_strip_empty_iff: "py_strip s = [] \<longleftrightarrow> (\<forall>c\<in>set s. py_isspace c)"
proof
  assume a: "py_strip s = []"
  show "\<forall>c\<in>set s. py_isspace c"
  proof (rule ccontr)
    assume "\<not> (\<forall>c\<in>set s. py_isspace c)"
    then have ne: "dropWhile py_isspace s \<noteq> []" by simp
    then have "\<not> py_isspace (hd (dropWhile py_isspace s))" by (rule hd_dropWhile)
    moreover have "hd (dropWhile py_isspace s) \<in> set (rev (dropWhile py_isspace s))"
      using ne by simp
    ultimately have "dropWhile py_isspace (rev (dropWhile py_isspace s)) \<noteq> []"
      by auto
    with a show False by (simp add: py_strip_def)
  qed
next
  assume "\<forall>c\<in>set s. py_isspace c"
  then show "py_strip s = []" by (auto simp: py_strip_def dest: set_dropWhileD)
qed






section \<open>The loops\<close>



lemma collect_reasons_filter:
  "collect_reasons items acc =
     acc @ map (\<lambda>kv. format_reason (fst kv)) (filter (\<lambda>kv. truthy (snd kv)) items)"
  by (induction items arbitrary: acc) auto



section \<open>The client and the handler\<close>

lemma mode_heuristic: "mode (check_with_heuristic text) = ''heuristic''"
  by (simp add: check_with_heuristic_def Let_def)

lemma read_moderation_mode: "read_moderation data = Inr r \<Longrightarrow> mode r = ''openai''"
  by (auto simp: read_moderation_def split: sum.splits if_splits)

lemma read_moderation_safe: "read_moderation data = Inr r \<Longrightarrow> safe r \<Longrightarrow> reasons r = []"
  by (auto simp: read_moderation_def split: sum.splits if_splits)

lemma try_moderation_mode: "try_moderation svc env text = Inr r \<Longrightarrow> mode r = ''openai''"
  by (auto simp: try_moderation_def split: sum.splits dest: read_moderation_mode)

text \<open>The only exception that leaves the client is its own \<open>HTTPException\<close>.\<close>

lemma check_with_openai_Inl:
  "fst (check_with_openai svc env text) = Inl e \<Longrightarrow>
   e = HTTPException 500 ''OpenAI moderation service unavailable''"
  by (auto simp: check_with_openai_def split: sum.splits)

lemma check_text_configured:
  "py_strip text \<noteq> [] \<Longrightarrow> has_api_key env \<Longrightarrow>
   check_text svc env text =
     (case try_moderation svc env text of
        Inl e \<Rightarrow> Inr (check_with_heuristic text)
      | Inr r \<Rightarrow> Inr r,
      [make_request env text])"
  by (simp add: check_text_def check_with_openai_def split: sum.splits)

lemma read_moderation_well_formed:
  assumes "map_of body ''results'' = Some (JArr (JObj result # others))"
    and "map_of result ''flagged'' = Some (JBool flagged)"
    and "map_of result ''categories'' = Some (JObj (map (\<lambda>kv. (fst kv, JBool (snd kv))) cats))"
  shows "read_moderation (JObj body) =
     Inr \<lparr>safe = \<not> flagged,
          reasons = (if flagged then map format_reason (map fst (filter snd cats)) else []),
          mode = ''openai''\<rparr>"
proof -
  have "map (\<lambda>kv. format_reason (fst kv))
          (filter (\<lambda>kv. truthy (snd kv)) (map (\<lambda>kv. (fst kv, JBool (snd kv))) cats)) =
        map format_reason (map fst (filter snd cats))"
    by (induction cats) (auto simp: truthy_def)
  then show ?thesis
    using assms
    by (simp add: read_moderation_def getitem_str_def getitem_0_def truthy_def py_items_def
        collect_reasons_filter)
qed

text \<open>
  A payload need not have the documented shape to be read without an exception: when
  \<open>flagged\<close> is not true, \<open>categories\<close> is looked up but not inspected.
\<close>

lemma read_moderation_lenient:
  "read_moderation (JObj [(''results'', JArr [JObj [(''flagged'', JNull), (''categories'', JNull)]])]) =
     Inr \<lparr>safe = True, reasons = [], mode = ''openai''\<rparr>"
  by (simp add: read_moderation_def getitem_str_def getitem_0_def truthy_def)

text \<open>Reading a payload raises exactly when the payload lacks the parts that are used.\<close>

lemma read_moderation_raises_iff:
  "(\<exists>e. read_moderation data = Inl e) \<longleftrightarrow>
   \<not> (\<exists>body result others flagged categories.
         data = JObj body \<and>
         map_of body ''results'' = Some (JArr (JObj result # others)) \<and>
         map_of result ''flagged'' = Some flagged \<and>
         map_of result ''categories'' = Some categories \<and>
         (truthy flagged \<longrightarrow> (\<exists>kvs. categories = JObj kvs)))"
  by (auto simp: read_moderation_def getitem_str_def getitem_0_def py_items_def
      split: json.splits option.splits list.splits)

text \<open>The reason string, spelled out.\<close>

lemma format_reason_eq:
  "format_reason c =
     codepoints ''Detected: '' @ py_title (map (\<lambda>x. if x = CHR ''_'' then CHR '' '' else x) c)"
  by (simp add: format_reason_def py_replace_def)

text \<open>Title-casing can leave the range U+0000 .. U+00FF: the micro sign becomes U+039C.\<close>

lemma format_reason_micro:
  "format_reason [CHR 0xB5, CHR ''g''] = codepoints ''Detected: '' @ [924, 103]"
  by code_simp

text \<open>The empty pattern is found in every text.\<close>

lemma re_search_Eps: "re_search Eps t"
  by (auto simp: re_search_def list_ex_iff)

section \<open>The claims\<close>

text \<open>
  Claim C1, as the code has it. For every well-formed upstream response (the payload is an
  object whose \<open>results\<close> is a list that starts with an object, in which \<open>flagged\<close> is
  a boolean and \<open>categories\<close> is an object of booleans), \<open>check_with_openai\<close> returns
  mode \<open>openai\<close> and \<open>safe\<close> equal to the negation of \<open>flagged\<close>. When \<open>flagged\<close> is
  true, \<open>reasons\<close> has exactly one entry for each category whose boolean is true, in the
  order of the payload; the entry is \<open>Detected: \<close> followed by the title case of the
  category name with every underscore replaced by a space. This is the string that the
  heuristic classifier builds for a category of that name. When \<open>flagged\<close> is false,
  \<open>reasons\<close> is empty whatever the categories say.
\<close>

theorem openai_verdict_well_formed:
  assumes "svc (make_request env text) = Inr (JObj body)"
    and "map_of body ''results'' = Some (JArr (JObj result # others))"
    and "map_of result ''flagged'' = Some (JBool flagged)"
    and "map_of result ''categories'' = Some (JObj (map (\<lambda>kv. (fst kv, JBool (snd kv))) cats))"
  shows "fst (check_with_openai svc env text) =
     Inr \<lparr>safe = \<not> flagged,
          reasons =
            (if flagged
             then map (\<lambda>c. codepoints ''Detected: '' @
                          py_title (map (\<lambda>x. if x = CHR ''_'' then CHR '' '' else x) c))
                    (map fst (filter snd cats))
             else []),
          mode = ''openai''\<rparr> \<and>
     collect_reasons [(c, JBool True)] [] = scan_categories [(c, [Eps])] t [] \<and>
     scan_categories [(c, [Eps])] t [] =
       [codepoints ''Detected: '' @
        py_title (map (\<lambda>x. if x = CHR ''_'' then CHR '' '' else x) c)]"
proof -
  have f: "format_reason =
      (\<lambda>c. codepoints ''Detected: '' @
            py_title (map (\<lambda>x. if x = CHR ''_'' then CHR '' '' else x) c))"
    by (rule ext) (rule format_reason_eq)
  have a: "fst (check_with_openai svc env text) =
     Inr \<lparr>safe = \<not> flagged,
          reasons = (if flagged then map format_reason (map fst (filter snd cats)) else []),
          mode = ''openai''\<rparr>"
    using assms(1) read_moderation_well_formed [OF assms(2-4)]
    by (simp add: check_with_openai_def try_moderation_def)
  have b: "collect_reasons [(c, JBool True)] [] = [format_reason c]"
    by (simp add: truthy_def)
  have d: "scan_categories [(c, [Eps])] t [] = [format_reason c]"
    by (simp add: re_search_Eps)
  from a b d show ?thesis unfolding f by simp
qed

text \<open>
  The theorem at a flagged response with three true categories out of four, one of them
  with an underscore in its name.
\<close>

theorem openai_verdict_well_formed_witness:
  "fst (check_with_openai
          (reply (moderation_payload True
             [(''hate'', True), (''self_harm'', True), (''self-harm'', False),
              (''violence/graphic'', True)]))
          (Some ''sk-test'') ''some text'') =
     Inr \<lparr>safe = False,
          reasons = [codepoints ''Detected: Hate'', codepoints ''Detected: Self Harm'',
                     codepoints ''Detected: Violence/Graphic''],
          mode = ''openai''\<rparr>"
proof -
  let ?cats = "[(''hate'', True), (''self_harm'', True), (''self-harm'', False),
                (''violence/graphic'', True)]"
  let ?result = "[(''flagged'', JBool True),
                  (''categories'', JObj (map (\<lambda>kv. (fst kv, JBool (snd kv))) ?cats))]"
  let ?body = "[(''id'', JStr ''modr-1''), (''results'', JArr [JObj ?result])]"
  have h1: "reply (moderation_payload True ?cats) (make_request (Some ''sk-test'') ''some text'') =
      Inr (JObj ?body)"
    by (simp add: reply_def moderation_payload_def)
  have h2: "map_of ?body ''results'' = Some (JArr (JObj ?result # []))" by simp
  have h3: "map_of ?result ''flagged'' = Some (JBool True)" by simp
  have h4: "map_of ?result ''categories'' =
      Some (JObj (map (\<lambda>kv. (fst kv, JBool (snd kv))) ?cats))" by simp
  have f1: "codepoints ''Detected: '' @ py_title ''hate'' = codepoints ''Detected: Hate''"
    by code_simp
  have f2: "codepoints ''Detected: '' @ py_title ''self harm'' = codepoints ''Detected: Self Harm''"
    by code_simp
  have f3: "codepoints ''Detected: '' @ py_title ''violence/graphic'' =
      codepoints ''Detected: Violence/Graphic''"
    by code_simp
  from openai_verdict_well_formed
         [where svc = "reply (moderation_payload True ?cats)" and cats = ?cats, OF h1 h2 h3 h4]
  show ?thesis
    by (simp add: f1 f2 f3)
qed

text \<open>
  Claim C1 as it is stated fails: it derives the reasons from the category booleans
  independently of \<open>flagged\<close>. On the well-formed response with \<open>flagged\<close> false and
  the category \<open>hate\<close> true, the code returns no reason, not the one entry for \<open>hate\<close>.
\<close>

theorem openai_reasons_counterexample:
  "fst (check_with_openai (reply (moderation_payload False [(''hate'', True)]))
          (Some ''sk-test'') ''hello there'') =
     Inr \<lparr>safe = True, reasons = [], mode = ''openai''\<rparr> \<and>
   fst (check_with_openai (reply (moderation_payload False [(''hate'', True)]))
          (Some ''sk-test'') ''hello there'') \<noteq>
     Inr \<lparr>safe = \<not> False,
          reasons = map format_reason (map fst (filter snd [(''hate'', True)])),
          mode = ''openai''\<rparr>"
  by (simp add: check_with_openai_def try_moderation_def read_moderation_def getitem_str_def
      getitem_0_def truthy_def reply_def moderation_payload_def)

text \<open>
  Claim C2. For every text that is empty or consists of whitespace only, \<open>check_text\<close>
  returns exactly \<open>safe = True\<close>, \<open>reasons = []\<close>, \<open>mode = "none"\<close>, whatever the
  credential and whatever the service would answer, and makes no request to the service.
\<close>

theorem blank_text_none:
  "\<forall>c\<in>set text. py_isspace c \<Longrightarrow>
   check_text svc env text = (Inr \<lparr>safe = True, reasons = [], mode = ''none''\<rparr>, [])"
  by (simp add: check_text_def py_strip_empty_iff)

text \<open>The theorem at a text of spaces, a tab and a newline, with a credential set.\<close>

theorem blank_text_none_witness:
  "list_all py_isspace [CHR '' '', CHR 0x09, CHR 0x0A, CHR '' ''] \<and>
   check_text (reply (moderation_payload True [(''hate'', True)])) (Some ''sk-test'')
       [CHR '' '', CHR 0x09, CHR 0x0A, CHR '' ''] =
     (Inr \<lparr>safe = True, reasons = [], mode = ''none''\<rparr>, [])"
proof -
  have h: "\<forall>c\<in>set [CHR '' '', CHR 0x09, CHR 0x0A, CHR '' '']. py_isspace c"
    by code_simp
  from blank_text_none [OF h] h show ?thesis by (simp add: list_all_iff)
qed

text \<open>
  Claim C3, as the code has it. For every text that is not empty after trimming, with a
  credential configured: if the upstream call fails, because the HTTP library raises
  (transport error, timeout, non-success status, undecodable body) or because reading the
  payload raises, then \<open>check_text\<close> returns the verdict of the heuristic classifier on
  the text, with mode \<open>heuristic\<close>. No exception ever leaves \<open>check_text\<close>: it always
  returns a response. Reading a payload raises exactly when the payload is not an object
  whose \<open>results\<close> is a list that starts with an object with the keys \<open>flagged\<close> and
  \<open>categories\<close>, or when \<open>flagged\<close> counts as true and \<open>categories\<close> is not an
  object; the types of \<open>flagged\<close> and of the values in \<open>categories\<close> are not checked.
\<close>

theorem upstream_failure_falls_back:
  assumes "py_strip text \<noteq> []" and "has_api_key env"
    and "svc (make_request env text) = Inl e \<or>
         (\<exists>data. svc (make_request env text) = Inr data \<and> read_moderation data = Inl e)"
  shows "check_text svc env text = (Inr (check_with_heuristic text), [make_request env text]) \<and>
         mode (check_with_heuristic text) = ''heuristic'' \<and>
         (\<forall>svc' env' text'. \<exists>r. fst (check_text svc' env' text') = Inr r) \<and>
         ((\<exists>x. read_moderation payload = Inl x) \<longleftrightarrow>
          \<not> (\<exists>body result others flagged categories.
                payload = JObj body \<and>
                map_of body ''results'' = Some (JArr (JObj result # others)) \<and>
                map_of result ''flagged'' = Some flagged \<and>
                map_of result ''categories'' = Some categories \<and>
                (truthy flagged \<longrightarrow> (\<exists>kvs. categories = JObj kvs))))"
proof -
  from assms(3) have "try_moderation svc env text = Inl e"
    by (auto simp: try_moderation_def)
  then have "check_text svc env text = (Inr (check_with_heuristic text), [make_request env text])"
    by (simp add: check_text_configured [OF assms(1,2)])
  moreover have "\<exists>r. fst (check_text svc' env' text') = Inr r" for svc' env' text'
    by (simp add: check_text_def check_with_openai_def split: sum.splits)
  ultimately show ?thesis
    using read_moderation_raises_iff [of payload] by (simp add: mode_heuristic)
qed

text \<open>The theorem at a service that times out.\<close>

theorem upstream_failure_falls_back_witness:
  "py_strip ''You are so stupid and ugly'' \<noteq> [] \<and> has_api_key (Some ''sk-test'') \<and>
   timing_out (make_request (Some ''sk-test'') ''You are so stupid and ugly'') = Inl TimeoutException \<and>
   check_text timing_out (Some ''sk-test'') ''You are so stupid and ugly'' =
     (Inr (check_with_heuristic ''You are so stupid and ugly''),
      [make_request (Some ''sk-test'') ''You are so stupid and ugly''])"
proof -
  have h1: "py_strip ''You are so stupid and ugly'' \<noteq> []" by code_simp
  have h2: "has_api_key (Some ''sk-test'')" by (simp add: has_api_key_def)
  have h3: "timing_out (make_request (Some ''sk-test'') ''You are so stupid and ugly'') =
      Inl TimeoutException"
    by (simp add: timing_out_def)
  have h4: "timing_out (make_request (Some ''sk-test'') ''You are so stupid and ugly'') =
        Inl TimeoutException \<or>
      (\<exists>data. timing_out (make_request (Some ''sk-test'') ''You are so stupid and ugly'') =
          Inr data \<and> read_moderation data = Inl TimeoutException)"
    using h3 by blast
  from upstream_failure_falls_back [where svc = timing_out, OF h1 h2 h4] h1 h2 h3
  show ?thesis by blast
qed

text \<open>
  Claim C3 as it is stated fails for a malformed payload that the client reads without an
  exception. With a credential configured and the payload
  \<open>{"results": [{"flagged": null, "categories": null}]}\<close>, the text
  \<open>I will kill you\<close> is answered as safe in mode \<open>openai\<close>, not with the verdict of the
  heuristic classifier.
\<close>

theorem malformed_payload_counterexample:
  "py_strip ''I will kill you'' \<noteq> [] \<and> has_api_key (Some ''sk-test'') \<and>
   check_text
       (reply (JObj [(''results'', JArr [JObj [(''flagged'', JNull), (''categories'', JNull)]])]))
       (Some ''sk-test'') ''I will kill you'' =
     (Inr \<lparr>safe = True, reasons = [], mode = ''openai''\<rparr>,
      [make_request (Some ''sk-test'') ''I will kill you'']) \<and>
   check_with_heuristic ''I will kill you'' =
     \<lparr>safe = False, reasons = [codepoints ''Detected: Violence''], mode = ''heuristic''\<rparr>"
proof -
  have h1: "py_strip ''I will kill you'' \<noteq> []" by code_simp
  have h2: "has_api_key (Some ''sk-test'')" by (simp add: has_api_key_def)
  have h3: "check_text
       (reply (JObj [(''results'', JArr [JObj [(''flagged'', JNull), (''categories'', JNull)]])]))
       (Some ''sk-test'') ''I will kill you'' =
     (Inr \<lparr>safe = True, reasons = [], mode = ''openai''\<rparr>,
      [make_request (Some ''sk-test'') ''I will kill you''])"
    by (simp add: check_text_configured [OF h1 h2] try_moderation_def reply_def
        read_moderation_lenient)
  have h4: "check_with_heuristic ''I will kill you'' =
     \<lparr>safe = False, reasons = [codepoints ''Detected: Violence''], mode = ''heuristic''\<rparr>"
    by code_simp
  from h1 h2 h3 h4 show ?thesis by blast
qed

text \<open>
  Claim C4. For every response of \<open>check_text\<close> whose mode is \<open>heuristic\<close> or
  \<open>none\<close>, \<open>safe\<close> is true if and only if \<open>reasons\<close> is empty.
\<close>

theorem safe_iff_no_reasons:
  assumes "fst (check_text svc env text) = Inr r"
    and "mode r = ''heuristic'' \<or> mode r = ''none''"
  shows "safe r \<longleftrightarrow> reasons r = []"
proof (cases "py_strip text = []")
  case True
  with assms(1) show ?thesis by (auto simp: check_text_def)
next
  case False
  note nonblank = this
  show ?thesis
  proof (cases "has_api_key env \<and> (\<exists>r'. try_moderation svc env text = Inr r')")
    case True
    then obtain r' where r': "try_moderation svc env text = Inr r'" by blast
    with True nonblank assms(1) have "r = r'"
      by (simp add: check_text_configured)
    with r' have "mode r = ''openai''" by (simp add: try_moderation_mode)
    with assms(2) show ?thesis by simp
  next
    case False
    have "fst (check_text svc env text) = Inr (check_with_heuristic text)"
    proof (cases "has_api_key env")
      case True
      with False obtain e where "try_moderation svc env text = Inl e"
        by (cases "try_moderation svc env text") auto
      then show ?thesis by (simp add: check_text_configured [OF nonblank True])
    next
      case False
      then show ?thesis using nonblank by (simp add: check_text_def)
    qed
    with assms(1) have "r = check_with_heuristic text" by simp
    then show ?thesis by (simp add: check_with_heuristic_def Let_def)
  qed
qed

text \<open>The theorem at a response that the heuristic gives after a timeout.\<close>

theorem safe_iff_no_reasons_witness:
  "fst (check_text timing_out (Some ''sk-test'') ''I hate you'') =
     Inr (check_with_heuristic ''I hate you'') \<and>
   mode (check_with_heuristic ''I hate you'') = ''heuristic'' \<and>
   (safe (check_with_heuristic ''I hate you'') \<longleftrightarrow>
    reasons (check_with_heuristic ''I hate you'') = [])"
proof -
  have n: "py_strip ''I hate you'' \<noteq> []" by code_simp
  have k: "has_api_key (Some ''sk-test'')" by (simp add: has_api_key_def)
  have t: "try_moderation timing_out (Some ''sk-test'') ''I hate you'' = Inl TimeoutException"
    by (simp add: try_moderation_def timing_out_def)
  have h1: "fst (check_text timing_out (Some ''sk-test'') ''I hate you'') =
      Inr (check_with_heuristic ''I hate you'')"
    by (simp add: check_text_configured [OF n k] t)
  have m: "mode (check_with_heuristic ''I hate you'') = ''heuristic''"
    by (rule mode_heuristic)
  then have h2: "mode (check_with_heuristic ''I hate you'') = ''heuristic'' \<or>
      mode (check_with_heuristic ''I hate you'') = ''none''" by blast
  from safe_iff_no_reasons [where svc = timing_out, OF h1 h2] h1 m show ?thesis by blast
qed



text \<open>
  Claim C6. For every text that is not empty after trimming, when no credential is
  configured (the variable is not set, or is empty) \<open>check_text\<close> returns the verdict
  of the heuristic classifier, whose mode is \<open>heuristic\<close> and neither \<open>openai\<close> nor
  \<open>none\<close>, and makes no request to the service.
\<close>

theorem no_credential_heuristic:
  assumes "py_strip text \<noteq> []" and "env = None \<or> env = Some ''''"
  shows "check_text svc env text = (Inr (check_with_heuristic text), []) \<and>
         mode (check_with_heuristic text) = ''heuristic'' \<and>
         mode (check_with_heuristic text) \<noteq> ''openai'' \<and>
         mode (check_with_heuristic text) \<noteq> ''none''"
  using assms by (auto simp: check_text_def has_api_key_def mode_heuristic)

text \<open>The theorem at a harmless text with the variable not set.\<close>

theorem no_credential_heuristic_witness:
  "py_strip ''Let us grab coffee sometime'' \<noteq> [] \<and>
   check_text (reply (moderation_payload True [(''hate'', True)])) None
       ''Let us grab coffee sometime'' =
     (Inr (check_with_heuristic ''Let us grab coffee sometime''), [])"
proof -
  have h1: "py_strip ''Let us grab coffee sometime'' \<noteq> []" by code_simp
  have h2: "(None :: string option) = None \<or> None = Some ''''" by simp
  from no_credential_heuristic [OF h1 h2] h1 show ?thesis by blast
qed

text \<open>
  Claim C7. For the text \<open>You are so stupid and ugly\<close> the heuristic classifier returns
  \<open>safe = False\<close> and the single reason \<open>Detected: Harassment\<close>: \<open>stupid\<close> and
  \<open>ugly\<close> both occur as whole words, the category \<open>harassment\<close> reaches its \<open>break\<close>
  and none of the three other categories does.
\<close>

theorem stupid_and_ugly:
  "check_with_heuristic ''You are so stupid and ugly'' =
     \<lparr>safe = False, reasons = [codepoints ''Detected: Harassment''], mode = ''heuristic''\<rparr> \<and>
   contains_word [''stupid''] (py_lower ''You are so stupid and ugly'') \<and>
   contains_word [''ugly''] (py_lower ''You are so stupid and ugly'') \<and>
   map (\<lambda>kv. scan_patterns (snd kv) (py_lower ''You are so stupid and ugly'')) HEURISTIC_PATTERNS =
     [False, True, False, False]"
proof -
  have "check_with_heuristic ''You are so stupid and ugly'' =
     \<lparr>safe = False, reasons = [codepoints ''Detected: Harassment''], mode = ''heuristic''\<rparr>"
    by code_simp
  moreover have "contains_word [''stupid''] (py_lower ''You are so stupid and ugly'')"
    by code_simp
  moreover have "contains_word [''ugly''] (py_lower ''You are so stupid and ugly'')"
    by code_simp
  moreover have "map (\<lambda>kv. scan_patterns (snd kv) (py_lower ''You are so stupid and ugly''))
      HEURISTIC_PATTERNS = [False, True, False, False]"
    by code_simp
  ultimately show ?thesis by blast
qed

text \<open>
  Claim C8. \<open>health_check\<close> always returns the status \<open>healthy\<close> and
  \<open>heuristic_available\<close> true; \<open>openai_available\<close> is true exactly when the variable
  holds a non-empty credential, which is the test that \<open>check_text\<close> makes before it
  tries the service.
\<close>

theorem health_check_reports:
  "health_check env =
     \<lparr>status = ''healthy'',
      openai_available = (\<exists>k. env = Some k \<and> k \<noteq> ''''),
      heuristic_available = True\<rparr> \<and>
   (openai_available (health_check env) \<longleftrightarrow> has_api_key env)"
  by (cases env) (simp_all add: health_check_def has_api_key_def)

text \<open>The theorem without and with a credential.\<close>

theorem health_check_reports_witness:
  "health_check None =
     \<lparr>status = ''healthy'', openai_available = False, heuristic_available = True\<rparr> \<and>
   health_check (Some ''sk-test'') =
     \<lparr>status = ''healthy'', openai_available = True, heuristic_available = True\<rparr>"
  using health_check_reports [of None] health_check_reports [of "Some ''sk-test''"]
  by simp

text \<open>
  Claim C9. Every response of \<open>check_with_openai\<close> with \<open>safe\<close> true has no reasons;
  in particular, when the upstream \<open>flagged\<close> is false the reasons are empty whatever
  \<open>categories\<close> holds. The converse direction can fail: a response with \<open>flagged\<close>
  true and no true category gives \<open>safe\<close> false with no reasons.
\<close>

theorem openai_safe_has_no_reasons:
  "(fst (check_with_openai svc env text) = Inr r \<longrightarrow> safe r \<longrightarrow> reasons r = []) \<and>
   (svc (make_request env text) = Inr (JObj body) \<longrightarrow>
    map_of body ''results'' = Some (JArr (JObj result # others)) \<longrightarrow>
    map_of result ''flagged'' = Some (JBool False) \<longrightarrow>
    map_of result ''categories'' = Some categories \<longrightarrow>
    fst (check_with_openai svc env text) = Inr \<lparr>safe = True, reasons = [], mode = ''openai''\<rparr>) \<and>
   fst (check_with_openai (reply (moderation_payload True [(''hate'', False)])) env text) =
     Inr \<lparr>safe = False, reasons = [], mode = ''openai''\<rparr>"
proof -
  have a: "reasons r = []" if "fst (check_with_openai svc env text) = Inr r" "safe r"
  proof -
    from that(1) obtain data where "read_moderation data = Inr r"
      by (auto simp: check_with_openai_def try_moderation_def split: sum.splits)
    then show ?thesis using that(2) by (rule read_moderation_safe)
  qed
  have b: "fst (check_with_openai svc env text) = Inr \<lparr>safe = True, reasons = [], mode = ''openai''\<rparr>"
    if "svc (make_request env text) = Inr (JObj body)"
      "map_of body ''results'' = Some (JArr (JObj result # others))"
      "map_of result ''flagged'' = Some (JBool False)"
      "map_of result ''categories'' = Some categories"
    using that
    by (simp add: check_with_openai_def try_moderation_def read_moderation_def getitem_str_def
        getitem_0_def truthy_def)
  have c: "fst (check_with_openai (reply (moderation_payload True [(''hate'', False)])) env text) =
     Inr \<lparr>safe = False, reasons = [], mode = ''openai''\<rparr>"
    by (simp add: check_with_openai_def try_moderation_def read_moderation_def getitem_str_def
        getitem_0_def truthy_def py_items_def reply_def moderation_payload_def)
  from a b c show ?thesis by blast
qed

text \<open>The theorem at an unflagged response in which two categories are true.\<close>

theorem openai_safe_has_no_reasons_witness:
  "fst (check_with_openai
          (reply (moderation_payload False [(''hate'', True), (''violence'', True)]))
          (Some ''sk-test'') ''good morning'') =
     Inr \<lparr>safe = True, reasons = [], mode = ''openai''\<rparr>"
proof -
  let ?categories = "JObj [(''hate'', JBool True), (''violence'', JBool True)]"
  let ?result = "[(''flagged'', JBool False), (''categories'', ?categories)]"
  let ?body = "[(''id'', JStr ''modr-1''), (''results'', JArr [JObj ?result])]"
  let ?svc = "reply (moderation_payload False [(''hate'', True), (''violence'', True)])"
  have h1: "?svc (make_request (Some ''sk-test'') ''good morning'') = Inr (JObj ?body)"
    by (simp add: reply_def moderation_payload_def)
  have h2: "map_of ?body ''results'' = Some (JArr (JObj ?result # []))" by simp
  have h3: "map_of ?result ''flagged'' = Some (JBool False)" by simp
  have h4: "map_of ?result ''categories'' = Some ?categories" by simp
  from openai_safe_has_no_reasons
         [where svc = ?svc and env = "Some ''sk-test''"
            and body = ?body and result = ?result and others = "[]" and categories = ?categories]
       h1 h2 h3 h4
  show ?thesis by blast
qed

text \<open>
  Claim C10. For every text that is not empty after trimming, \<open>check_text\<close> classifies
  the text as it was received: the request made to the service carries the text itself as
  its input, and the heuristic classifier, when it is used, is applied to the text itself.
  The trimmed text is used for the emptiness test only.
\<close>

theorem original_text_is_classified:
  assumes "py_strip text \<noteq> []"
  shows "check_text svc env text =
           (if has_api_key env
            then (case svc (make_request env text) of
                    Inl e \<Rightarrow> Inr (check_with_heuristic text)
                  | Inr data \<Rightarrow>
                      (case read_moderation data of
                         Inl e \<Rightarrow> Inr (check_with_heuristic text)
                       | Inr r \<Rightarrow> Inr r),
                  [make_request env text])
            else (Inr (check_with_heuristic text), [])) \<and>
         json_input (make_request env text) = text \<and>
         (\<forall>req\<in>set (snd (check_text svc env text)). json_input req = text)"
proof -
  have a: "check_text svc env text =
           (if has_api_key env
            then (case svc (make_request env text) of
                    Inl e \<Rightarrow> Inr (check_with_heuristic text)
                  | Inr data \<Rightarrow>
                      (case read_moderation data of
                         Inl e \<Rightarrow> Inr (check_with_heuristic text)
                       | Inr r \<Rightarrow> Inr r),
                  [make_request env text])
            else (Inr (check_with_heuristic text), []))"
  proof (cases "has_api_key env")
    case True
    show ?thesis
      by (simp add: True check_text_configured [OF assms True] try_moderation_def split: sum.splits)
  next
    case False
    with assms show ?thesis by (simp add: check_text_def)
  qed
  have b: "json_input (make_request env text) = text" by (simp add: make_request_def)
  have c: "\<forall>req\<in>set (snd (check_text svc env text)). json_input req = text"
    unfolding a using b by simp
  from a b c show ?thesis by blast
qed

text \<open>
  The theorem at a text with spaces on both sides, which trimming would change.
\<close>

theorem original_text_is_classified_witness:
  "py_strip ''  kill time  '' \<noteq> [] \<and>
   py_strip ''  kill time  '' \<noteq> ''  kill time  '' \<and>
   snd (check_text timing_out (Some ''sk-test'') ''  kill time  '') =
     [make_request (Some ''sk-test'') ''  kill time  ''] \<and>
   json_input (make_request (Some ''sk-test'') ''  kill time  '') = ''  kill time  ''"
proof -
  have h1: "py_strip ''  kill time  '' \<noteq> []" by code_simp
  have h2: "py_strip ''  kill time  '' \<noteq> ''  kill time  ''" by code_simp
  have k: "has_api_key (Some ''sk-test'')" by (simp add: has_api_key_def)
  from original_text_is_classified [where svc = timing_out and env = "Some ''sk-test''", OF h1]
  have "snd (check_text timing_out (Some ''sk-test'') ''  kill time  '') =
          [make_request (Some ''sk-test'') ''  kill time  ''] \<and>
        json_input (make_request (Some ''sk-test'') ''  kill time  '') = ''  kill time  ''"
    by (simp add: k)
  with h1 h2 show ?thesis by blast
qed

end
